theory Spec2Isabelle
  imports Main "HOL-Library.Word" "HOL-Library.Multiset"
begin

section \<open>Data model\<close>

text \<open>
  The error values of the package (testfixtures.go, lines 79-88, and
  \<open>errNotTestDatabase\<close> used by \<open>Load\<close>).  \<open>YamlError\<close> stands for an error
  returned by \<open>yaml.Unmarshal\<close>, \<open>DriverError\<close> for one returned by the database
  driver.  \<open>NilTypePanic\<close> and \<open>ZeroValuePanic\<close> are not error values of the program:
  they mark the run-time panic of \<open>t.Kind()\<close> when \<open>reflect.TypeOf\<close> has returned the
  nil type, and that of \<open>Interface()\<close> on the zero \<open>reflect.Value\<close> that \<open>MapIndex\<close>
  returns for a key it does not find.
\<close>

datatype error =
    errNotTestDatabase
  | ErrWrongCastNotAMap
  | ErrFileIsNotSliceOrMap
  | ErrKeyIsNotString
  | YamlError string
  | DriverError string
  | NilTypePanic
  | ZeroValuePanic

text \<open>
  What \<open>yaml.Unmarshal\<close> stores into an \<open>interface{}\<close>: nil, a scalar, a
  \<open>[]interface{}\<close> or a \<open>map[interface{}]interface{}\<close>.  A Go map is an association
  list here; its order is the order in which \<open>range\<close> (or \<open>MapKeys\<close>) visits the
  entries.  A float64 is kept as its 64 bits.
\<close>

datatype val =
    VNil
  | VBool bool
  | VInt int
  | VFloat "64 word"
  | VString string
  | VSlice "val list"
  | VMap "(val \<times> val) list"

text \<open>
  The result of \<open>paramType()\<close>.  It is an \<open>int\<close> in Go, compared with three named
  constants; \<open>paramTypeOther\<close> is any other value, for which the \<open>switch\<close> of
  \<open>buildInsertSQL\<close> has no case.
\<close>

datatype paramType = paramTypeDollar | paramTypeQuestion | paramTypeColon | paramTypeOther

text \<open>
  The \<open>Helper\<close> interface, by the methods that \<open>testfixtures.go\<close> calls.  Its
  implementations are taken as a parameter.  \<open>'db\<close> is the state behind \<open>*sql.DB\<close>,
  \<open>'tx\<close> the state behind \<open>*sql.Tx\<close>; a function that returns \<open>error\<close> and acts on
  one of them returns the error (\<open>None\<close> for nil) with the new state.
  \<open>databaseName\<close> reads the name and leaves the database as it is.
\<close>

record ('db, 'tx) Helper =
  databaseName :: "'db \<Rightarrow> string"
  quoteKeyword :: "string \<Rightarrow> string"
  paramType :: paramType
  disableReferentialIntegrity ::
    "'db \<Rightarrow> ('tx \<Rightarrow> error option \<times> 'tx) \<Rightarrow> error option \<times> 'db"
  whileInsertOnTable ::
    "'tx \<Rightarrow> string \<Rightarrow> ('tx \<Rightarrow> error option \<times> 'tx) \<Rightarrow> error option \<times> 'tx"

text \<open>
  What the file uses and does not define: the package variables
  \<open>skipDatabaseNameCheck\<close> and \<open>dbnameRegexp\<close> (by its \<open>MatchString\<close>), the
  predicates \<open>isDateTime\<close>, \<open>isDate\<close>, \<open>isTime\<close>, the YAML parser and the
  driver's \<open>tx.Exec\<close> (whose \<open>sql.Result\<close> the code discards).

  \<open>Unmarshal\<close> gives the value that the parser stores for the bytes of a file, with
  the entries of every map in the order in which Go then visits them (\<open>MapKeys\<close> at
  line 166, \<open>range\<close> at line 103).  \<open>insert\<close> parses the file again at every call and
  Go draws the order of a map anew each time, so the value also depends on the moment of
  the call: \<open>Unmarshal\<close> gets the state at that moment, and may give the entries in
  another order at another state.
\<close>

record 'tx Env =
  skipDatabaseNameCheck :: bool
  dbnameMatchString :: "string \<Rightarrow> bool"
  isDateTime :: "val \<Rightarrow> bool"
  isDate :: "val \<Rightarrow> bool"
  isTime :: "val \<Rightarrow> bool"
  Unmarshal :: "'tx \<Rightarrow> string \<Rightarrow> error + val"
  Exec :: "'tx \<Rightarrow> string \<Rightarrow> val list \<Rightarrow> error option \<times> 'tx"

record fixtureFile =
  path :: string
  fileName :: string
  content :: string

record ('db, 'tx) Context =
  db :: 'db
  helper :: "('db, 'tx) Helper"
  fixturesFiles :: "fixtureFile list"

section \<open>Library functions\<close>

text \<open>\<open>os.IsPathSeparator\<close> on Unix.\<close>

definition IsPathSeparator :: "char \<Rightarrow> bool" where
  "IsPathSeparator c = (c = CHR ''/'')"

text \<open>
  \<open>filepath.Ext\<close>: the loop runs from the last byte down, stops at a path separator
  and returns the suffix that starts at the first dot it meets.  \<open>ExtScan\<close> gets the
  bytes still to visit, last first, and the bytes already passed.
\<close>

fun ExtScan :: "string \<Rightarrow> string \<Rightarrow> string" where
  "ExtScan [] passed = []"
| "ExtScan (c # cs) passed =
     (if IsPathSeparator c then []
      else if c = CHR ''.'' then c # passed
      else ExtScan cs (c # passed))"

definition Ext :: "string \<Rightarrow> string" where
  "Ext p = ExtScan (rev p) []"

text \<open>\<open>strings.Index\<close>: the index of the first instance of \<open>sub\<close> in \<open>s\<close>.\<close>

fun Index :: "string \<Rightarrow> string \<Rightarrow> nat option" where
  "Index [] sub = (if sub = [] then Some 0 else None)"
| "Index (c # cs) sub =
     (if take (length sub) (c # cs) = sub then Some 0
      else map_option Suc (Index cs sub))"

text \<open>
  \<open>strings.Replace s old new 1\<close>: \<open>s\<close> itself when \<open>old = new\<close> or \<open>old\<close> does not
  occur, otherwise \<open>s\<close> with the first instance of \<open>old\<close> replaced.
\<close>

definition Replace1 :: "string \<Rightarrow> string \<Rightarrow> string \<Rightarrow> string" where
  "Replace1 s old new =
     (if old = new then s
      else case Index s old of
             None \<Rightarrow> s
           | Some j \<Rightarrow> take j s @ new @ drop (j + length old) s)"

text \<open>\<open>fmt.Sprintf("%d", i)\<close> for the counter \<open>i\<close>, which starts at 1 and only grows.\<close>

fun itoa :: "nat \<Rightarrow> string" where
  "itoa n =
     (if n < 10 then [char_of (48 + n)]
      else itoa (n div 10) @ [char_of (48 + n mod 10)])"

declare itoa.simps [simp del]

text \<open>
  \<open>reflect.Value.MapIndex\<close>: the value of the entry whose key is equal to the given
  key, if there is one.  Go compares keys with \<open>==\<close>: a float that is not a number is
  equal to no key, not even to itself, and the two float zeros are equal.  (The parser
  refuses a map or a slice as a key.)
\<close>

definition isNaN64 :: "64 word \<Rightarrow> bool" where
  "isNaN64 w = (take_bit 11 (drop_bit 52 w) = 2047 \<and> take_bit 52 w \<noteq> 0)"

fun keyEqual :: "val \<Rightarrow> val \<Rightarrow> bool" where
  "keyEqual (VFloat a) (VFloat b) =
     (\<not> isNaN64 a \<and> \<not> isNaN64 b \<and> (a = b \<or> (take_bit 63 a = 0 \<and> take_bit 63 b = 0)))"
| "keyEqual a b = (a = b)"

fun MapIndex :: "(val \<times> val) list \<Rightarrow> val \<Rightarrow> val option" where
  "MapIndex [] key = None"
| "MapIndex ((k, v) # entries) key =
     (if keyEqual k key then Some v else MapIndex entries key)"

section \<open>The fixture file\<close>

definition fileNameWithoutExtension :: "fixtureFile \<Rightarrow> string" where
  "fileNameWithoutExtension f = Replace1 (fileName f) (Ext (fileName f)) ''''"

definition delete :: "'tx Env \<Rightarrow> ('db, 'tx) Helper \<Rightarrow> fixtureFile \<Rightarrow> 'tx \<Rightarrow> error option \<times> 'tx" where
  "delete env h f tx =
     Exec env tx (''DELETE FROM '' @ quoteKeyword h (fileNameWithoutExtension f)) []"

text \<open>
  The loop of \<open>buildInsertSQL\<close> (lines 103-132) over the entries still to visit, with
  the variables \<open>sqlColumns\<close>, \<open>sqlValues\<close>, \<open>i\<close> and \<open>values\<close>.  It returns them
  with the error, which is set by the early return at a key that is not a string.
\<close>

fun buildInsertLoop ::
  "'tx Env \<Rightarrow> ('db, 'tx) Helper \<Rightarrow> (val \<times> val) list \<Rightarrow> string \<Rightarrow> string \<Rightarrow> nat \<Rightarrow> val list
     \<Rightarrow> string \<times> string \<times> val list \<times> error option" where
  "buildInsertLoop env h [] sqlColumns sqlValues i values =
     (sqlColumns, sqlValues, values, None)"
| "buildInsertLoop env h ((key, value) # record) sqlColumns sqlValues i values =
     (let (sqlColumns1, sqlValues1) =
            (if length sqlColumns > 0 then (sqlColumns @ '', '', sqlValues @ '', '')
             else (sqlColumns, sqlValues))
      in case key of
           VString keyStr \<Rightarrow>
             (let sqlColumns2 = sqlColumns1 @ quoteKeyword h keyStr;
                  sqlValues2 =
                    (case paramType h of
                       paramTypeDollar \<Rightarrow> sqlValues1 @ ''$'' @ itoa i
                     | paramTypeQuestion \<Rightarrow> sqlValues1 @ ''?''
                     | paramTypeColon \<Rightarrow>
                         (if isDateTime env value then
                            sqlValues1 @ ''to_date(:'' @ itoa i @ '', 'YYYY-MM-DD HH24:MI:SS')''
                          else if isDate env value then
                            sqlValues1 @ ''to_date(:'' @ itoa i @ '', 'YYYY-MM-DD')''
                          else if isTime env value then
                            sqlValues1 @ ''to_date(:'' @ itoa i @ '', 'HH24:MI:SS')''
                          else sqlValues1 @ '':'' @ itoa i)
                     | paramTypeOther \<Rightarrow> sqlValues1)
              in buildInsertLoop env h record sqlColumns2 sqlValues2 (i + 1) (values @ [value]))
         | _ \<Rightarrow> (sqlColumns1, sqlValues1, values, Some ErrKeyIsNotString))"

text \<open>
  \<open>buildInsertSQL\<close> returns the named results \<open>sqlStr\<close>, \<open>values\<close> and \<open>err\<close>; at
  the early return \<open>sqlStr\<close> is still empty.
\<close>

definition buildInsertSQL ::
  "'tx Env \<Rightarrow> ('db, 'tx) Helper \<Rightarrow> fixtureFile \<Rightarrow> (val \<times> val) list
     \<Rightarrow> string \<times> val list \<times> error option" where
  "buildInsertSQL env h f record =
     (case buildInsertLoop env h record [] [] 1 [] of
        (sqlColumns, sqlValues, values, Some err) \<Rightarrow> ([], values, Some err)
      | (sqlColumns, sqlValues, values, None) \<Rightarrow>
          (''INSERT INTO '' @ quoteKeyword h (fileNameWithoutExtension f)
             @ '' ('' @ sqlColumns @ '') VALUES ('' @ sqlValues @ '')'',
           values, None))"

text \<open>
  The loop of \<open>insert\<close> over a slice (lines 150-164), over the elements still to
  visit.
\<close>

fun insertRecords ::
  "'tx Env \<Rightarrow> ('db, 'tx) Helper \<Rightarrow> fixtureFile \<Rightarrow> val list \<Rightarrow> 'tx \<Rightarrow> error option \<times> 'tx" where
  "insertRecords env h f [] tx = (None, tx)"
| "insertRecords env h f (r # rs) tx =
     (case r of
        VMap record \<Rightarrow>
          (case buildInsertSQL env h f record of
             (sqlStr, values, Some err) \<Rightarrow> (Some err, tx)
           | (sqlStr, values, None) \<Rightarrow>
               (case Exec env tx sqlStr values of
                  (Some err, tx') \<Rightarrow> (Some err, tx')
                | (None, tx') \<Rightarrow> insertRecords env h f rs tx'))
      | _ \<Rightarrow> (Some ErrWrongCastNotAMap, tx))"

text \<open>
  The loop of \<open>insert\<close> over a map (lines 167-181), over the keys still to visit, in
  the order of \<open>MapKeys\<close>.  It looks each key up again with \<open>MapIndex\<close>, and
  \<open>Interface()\<close> panics when the key is not found; the rest of the body is that of the
  loop over a slice.
\<close>

fun insertMapRecords ::
  "'tx Env \<Rightarrow> ('db, 'tx) Helper \<Rightarrow> fixtureFile \<Rightarrow> (val \<times> val) list \<Rightarrow> val list \<Rightarrow> 'tx
     \<Rightarrow> error option \<times> 'tx" where
  "insertMapRecords env h f entries [] tx = (None, tx)"
| "insertMapRecords env h f entries (key # keys) tx =
     (case MapIndex entries key of
        None \<Rightarrow> (Some ZeroValuePanic, tx)
      | Some r \<Rightarrow>
          (case r of
             VMap record \<Rightarrow>
               (case buildInsertSQL env h f record of
                  (sqlStr, values, Some err) \<Rightarrow> (Some err, tx)
                | (sqlStr, values, None) \<Rightarrow>
                    (case Exec env tx sqlStr values of
                       (Some err, tx') \<Rightarrow> (Some err, tx')
                     | (None, tx') \<Rightarrow> insertMapRecords env h f entries keys tx'))
           | _ \<Rightarrow> (Some ErrWrongCastNotAMap, tx)))"

text \<open>
  \<open>insert\<close>: \<open>rows\<close> is nil when the parser stores nil or nothing in it; then
  \<open>reflect.TypeOf\<close> returns the nil type and \<open>t.Kind()\<close> panics.  The scalars reach
  the \<open>default\<close> case.
\<close>

definition insert_file ::
  "'tx Env \<Rightarrow> ('db, 'tx) Helper \<Rightarrow> fixtureFile \<Rightarrow> 'tx \<Rightarrow> error option \<times> 'tx" where
  "insert_file env h f tx =
     (case Unmarshal env tx (content f) of
        Inl err \<Rightarrow> (Some err, tx)
      | Inr rows \<Rightarrow>
          (case rows of
             VNil \<Rightarrow> (Some NilTypePanic, tx)
           | VSlice elems \<Rightarrow> insertRecords env h f elems tx
           | VMap entries \<Rightarrow> insertMapRecords env h f entries (map fst entries) tx
           | _ \<Rightarrow> (Some ErrFileIsNotSliceOrMap, tx)))"

section \<open>Load\<close>

text \<open>
  The function that \<open>Load\<close> passes to \<open>disableReferentialIntegrity\<close> (lines 54-69):
  the loop over the fixture files still to visit.
\<close>

fun loadFiles ::
  "'tx Env \<Rightarrow> ('db, 'tx) Helper \<Rightarrow> fixtureFile list \<Rightarrow> 'tx \<Rightarrow> error option \<times> 'tx" where
  "loadFiles env h [] tx = (None, tx)"
| "loadFiles env h (file # files) tx =
     (case delete env h file tx of
        (Some err, tx') \<Rightarrow> (Some err, tx')
      | (None, tx') \<Rightarrow>
          (case whileInsertOnTable h tx' (fileNameWithoutExtension file) (insert_file env h file) of
             (Some err, tx'') \<Rightarrow> (Some err, tx'')
           | (None, tx'') \<Rightarrow> loadFiles env h files tx''))"

definition Load :: "'tx Env \<Rightarrow> ('db, 'tx) Context \<Rightarrow> error option \<times> 'db" where
  "Load env c =
     (if \<not> skipDatabaseNameCheck env then
        (if \<not> dbnameMatchString env (databaseName (helper c) (db c)) then
           (Some errNotTestDatabase, db c)
         else disableReferentialIntegrity (helper c) (db c)
                (loadFiles env (helper c) (fixturesFiles c)))
      else disableReferentialIntegrity (helper c) (db c)
             (loadFiles env (helper c) (fixturesFiles c)))"

section \<open>A concrete helper, parser and driver\<close>

text \<open>
  Instances of the parameters, on which the theorems below are run.  The transaction
  state of \<open>mockExec\<close> is the list of the statements executed so far; a statement
  whose text satisfies \<open>fails\<close> is recorded and returns a driver error.
\<close>

definition mockExec ::
  "(string \<Rightarrow> bool) \<Rightarrow> (string \<times> val list) list \<Rightarrow> string \<Rightarrow> val list
     \<Rightarrow> error option \<times> (string \<times> val list) list" where
  "mockExec fails tx sqlStr values =
     (if fails sqlStr then (Some (DriverError sqlStr), tx @ [(sqlStr, values)])
      else (None, tx @ [(sqlStr, values)]))"

text \<open>
  Some documents with the values that the YAML parser gives for them; for the empty
  document and for the null scalar \<open>~\<close> it stores nil, and \<open>.nan\<close> is the float that
  is not a number.  \<open>mockUnmarshal\<close> gives the entries of each map in the order of the
  document, \<open>mockUnmarshalReversed\<close> in the opposite order.
\<close>

definition mockUnmarshal :: "string \<Rightarrow> error + val" where
  "mockUnmarshal bytes =
     (if bytes = [] \<or> bytes = ''~'' then Inr VNil
      else if bytes = ''42'' then Inr (VInt 42)
      else if bytes = ''- {id: 1, title: a}'' then
        Inr (VSlice [VMap [(VString ''id'', VInt 1), (VString ''title'', VString ''a'')]])
      else if bytes = ''- {name: x}\<newline>- {name: z}'' then
        Inr (VSlice [VMap [(VString ''name'', VString ''x'')],
                     VMap [(VString ''name'', VString ''z'')]])
      else if bytes = ''first: {name: x}\<newline>second: {name: z}'' then
        Inr (VMap [(VString ''first'', VMap [(VString ''name'', VString ''x'')]),
                   (VString ''second'', VMap [(VString ''name'', VString ''z'')])])
      else if bytes = ''first: {name: x}\<newline>.nan: {name: z}'' then
        Inr (VMap [(VString ''first'', VMap [(VString ''name'', VString ''x'')]),
                   (VFloat 0x7FF8000000000001, VMap [(VString ''name'', VString ''z'')])])
      else if bytes = ''- {1: x}'' then Inr (VSlice [VMap [(VInt 1, VString ''x'')]])
      else Inl (YamlError bytes))"

definition mockUnmarshalReversed :: "string \<Rightarrow> error + val" where
  "mockUnmarshalReversed bytes =
     (if bytes = ''- {id: 1, title: a}'' then
        Inr (VSlice [VMap [(VString ''title'', VString ''a''), (VString ''id'', VInt 1)]])
      else if bytes = ''first: {name: x}\<newline>second: {name: z}'' then
        Inr (VMap [(VString ''second'', VMap [(VString ''name'', VString ''z'')]),
                   (VString ''first'', VMap [(VString ''name'', VString ''x'')])])
      else mockUnmarshal bytes)"

definition mockEnv :: "(string \<Rightarrow> bool) \<Rightarrow> bool \<Rightarrow> (string \<times> val list) list Env" where
  "mockEnv fails skip =
     \<lparr>skipDatabaseNameCheck = skip,
      dbnameMatchString = (\<lambda>name. name = ''db_test''),
      isDateTime = (\<lambda>v. v = VString ''2016-01-01 12:30:12''),
      isDate = (\<lambda>v. v = VString ''2016-01-01'' \<or> v = VString ''2016-01-01 12:30:12''),
      isTime = (\<lambda>v. v = VString ''12:30:12'' \<or> v = VString ''2016-01-01 12:30:12''),
      Unmarshal = (\<lambda>tx. mockUnmarshal),
      Exec = mockExec fails\<rparr>"

text \<open>
  A helper that quotes with square brackets, starts the transaction on the connection's
  state, keeps the connection's state when the function fails and passes the inserts of
  a table through.
\<close>

definition mockHelper ::
  "string \<Rightarrow> paramType
     \<Rightarrow> ((string \<times> val list) list, (string \<times> val list) list) Helper" where
  "mockHelper name pt =
     \<lparr>databaseName = (\<lambda>db. name),
      quoteKeyword = (\<lambda>s. ''['' @ s @ '']''),
      paramType = pt,
      disableReferentialIntegrity =
        (\<lambda>db loadFn. case loadFn db of (None, tx) \<Rightarrow> (None, tx) | (Some err, tx) \<Rightarrow> (Some err, db)),
      whileInsertOnTable = (\<lambda>tx tableName fn. fn tx)\<rparr>"

definition mockFile :: "string \<Rightarrow> string \<Rightarrow> fixtureFile" where
  "mockFile name bytes = \<lparr>path = name, fileName = name, content = bytes\<rparr>"

text \<open>\<open>HasPrefix\<close> is \<open>strings.HasPrefix\<close>.\<close>

fun HasPrefix :: "string \<Rightarrow> string \<Rightarrow> bool" where
  "HasPrefix s [] = True"
| "HasPrefix [] (p # prefix) = False"
| "HasPrefix (c # s) (p # prefix) = (c = p \<and> HasPrefix s prefix)"

text \<open>
  A parser and runtime that give the entries of every map in the order of the document
  while fewer than six statements have been executed, and in the opposite order from
  then on; with it, two calls of \<open>Load\<close> in succession visit the maps in different
  orders.
\<close>

definition mockRedraw :: "(string \<times> val list) list \<Rightarrow> string \<Rightarrow> error + val" where
  "mockRedraw tx bytes =
     (if length tx < 6 then mockUnmarshal bytes else mockUnmarshalReversed bytes)"

definition redrawEnv :: "(string \<times> val list) list Env" where
  "redrawEnv =
     \<lparr>skipDatabaseNameCheck = False,
      dbnameMatchString = (\<lambda>name. name = ''db_test''),
      isDateTime = (\<lambda>v. False),
      isDate = (\<lambda>v. False),
      isTime = (\<lambda>v. False),
      Unmarshal = mockRedraw,
      Exec = mockExec (\<lambda>s. False)\<rparr>"

text \<open>
  The rows of a table in the state of \<open>mockExec\<close>, read as a database does: the bag
  of the rows inserted into the table since its last \<open>DELETE\<close>, a row being the set of
  its columns with their values.  \<open>mockColumns\<close> reads the column list of an
  \<open>INSERT\<close> statement.
\<close>

fun splitOn :: "char \<Rightarrow> string \<Rightarrow> string list" where
  "splitOn sep [] = [[]]"
| "splitOn sep (c # cs) =
     (if c = sep then [] # splitOn sep cs
      else case splitOn sep cs of
             [] \<Rightarrow> [[c]]
           | part # parts \<Rightarrow> (c # part) # parts)"

definition mockColumns :: "string \<Rightarrow> string list" where
  "mockColumns sqlStr =
     map (dropWhile (\<lambda>c. c = CHR '' ''))
       (splitOn CHR '',''
          (takeWhile (\<lambda>c. c \<noteq> CHR '')'')
             (drop 2 (dropWhile (\<lambda>c. c \<noteq> CHR '' '') (drop 12 sqlStr)))))"

definition mockBag ::
  "(string \<times> val list) list \<Rightarrow> string \<Rightarrow> (string \<times> val) set multiset" where
  "mockBag tx tableName =
     foldl (\<lambda>rows (sqlStr, values).
              if sqlStr = ''DELETE FROM ['' @ tableName @ '']'' then {#}
              else if HasPrefix sqlStr (''INSERT INTO ['' @ tableName @ ''] ('')
                then add_mset (set (zip (mockColumns sqlStr) values)) rows
              else rows)
       {#} tx"

text \<open>
  A driver for a database with a serial column: an \<open>INSERT\<close> stores its values under
  the next number of a counter, and a \<open>DELETE\<close> removes the rows of its table and
  leaves the counter as it is.  The state is the counter with the stored rows, each with
  the quoted name of its table (\<open>tableOf\<close> reads it from the statement);
  \<open>serialRows\<close> are the rows of a table, and \<open>serialHelper\<close> is \<open>mockHelper\<close> on
  this state.
\<close>

definition tableOf :: "string \<Rightarrow> string" where
  "tableOf sqlStr = takeWhile (\<lambda>c. c \<noteq> CHR '' '') (drop 12 sqlStr)"

definition serialExec ::
  "nat \<times> (string \<times> nat \<times> val list) list \<Rightarrow> string \<Rightarrow> val list
     \<Rightarrow> error option \<times> (nat \<times> (string \<times> nat \<times> val list) list)" where
  "serialExec tx sqlStr values =
     (case tx of
        (next, stored) \<Rightarrow>
          if HasPrefix sqlStr ''DELETE FROM '' then
            (None, (next, filter (\<lambda>(t, row). t \<noteq> tableOf sqlStr) stored))
          else (None, (Suc next, stored @ [(tableOf sqlStr, next, values)])))"

definition serialRows ::
  "nat \<times> (string \<times> nat \<times> val list) list \<Rightarrow> string \<Rightarrow> (nat \<times> val list) list" where
  "serialRows tx tableName =
     (case tx of
        (next, stored) \<Rightarrow> map snd (filter (\<lambda>(t, row). t = ''['' @ tableName @ '']'') stored))"

definition serialEnv :: "(nat \<times> (string \<times> nat \<times> val list) list) Env" where
  "serialEnv =
     \<lparr>skipDatabaseNameCheck = False,
      dbnameMatchString = (\<lambda>name. name = ''db_test''),
      isDateTime = (\<lambda>v. False),
      isDate = (\<lambda>v. False),
      isTime = (\<lambda>v. False),
      Unmarshal = (\<lambda>tx. mockUnmarshal),
      Exec = serialExec\<rparr>"

definition serialHelper ::
  "(nat \<times> (string \<times> nat \<times> val list) list, nat \<times> (string \<times> nat \<times> val list) list) Helper" where
  "serialHelper =
     \<lparr>databaseName = (\<lambda>db. ''db_test''),
      quoteKeyword = (\<lambda>s. ''['' @ s @ '']''),
      paramType = paramTypeDollar,
      disableReferentialIntegrity =
        (\<lambda>db loadFn. case loadFn db of (None, tx) \<Rightarrow> (None, tx) | (Some err, tx) \<Rightarrow> (Some err, db)),
      whileInsertOnTable = (\<lambda>tx tableName fn. fn tx)\<rparr>"

section \<open>What the specification says of the compiled statement\<close>

text \<open>
  The definitions of this section follow the words of the specification, not the code;
  the theorems compare them with the code.  \<open>Join\<close> is \<open>strings.Join\<close>.
\<close>

fun Join :: "string list \<Rightarrow> string \<Rightarrow> string" where
  "Join [] sep = []"
| "Join [a] sep = a"
| "Join (a # b # elems) sep = a @ sep @ Join (b # elems) sep"

text \<open>A key that is a string, and a record all of whose keys are.\<close>

fun isStringKey :: "val \<Rightarrow> bool" where
  "isStringKey (VString s) = True"
| "isStringKey _ = False"

definition stringKeys :: "(val \<times> val) list \<Rightarrow> bool" where
  "stringKeys record = list_all (\<lambda>(key, value). isStringKey key) record"

text \<open>The quoted column name of a key.\<close>

fun columnOf :: "('db, 'tx) Helper \<Rightarrow> val \<Rightarrow> string" where
  "columnOf h (VString keyStr) = quoteKeyword h keyStr"
| "columnOf h _ = []"

text \<open>
  \<open>placeholderFor\<close>: the placeholder of the value bound at position \<open>i\<close>, counted
  from 1, in the dollar, question and colon styles; the colon style wraps it in a
  conversion call for a datetime, a date or a time.  No text for a style that is none
  of the three.
\<close>

definition placeholderFor :: "'tx Env \<Rightarrow> paramType \<Rightarrow> nat \<Rightarrow> val \<Rightarrow> string" where
  "placeholderFor env pt i v =
     (case pt of
        paramTypeDollar \<Rightarrow> ''$'' @ itoa i
      | paramTypeQuestion \<Rightarrow> ''?''
      | paramTypeColon \<Rightarrow>
          (if isDateTime env v then ''to_date(:'' @ itoa i @ '', 'YYYY-MM-DD HH24:MI:SS')''
           else if isDate env v then ''to_date(:'' @ itoa i @ '', 'YYYY-MM-DD')''
           else if isTime env v then ''to_date(:'' @ itoa i @ '', 'HH24:MI:SS')''
           else '':'' @ itoa i)
      | paramTypeOther \<Rightarrow> [])"

text \<open>The column list and the placeholder list, in the order of the entries.\<close>

definition columnList :: "('db, 'tx) Helper \<Rightarrow> (val \<times> val) list \<Rightarrow> string" where
  "columnList h record = Join (map (\<lambda>(key, value). columnOf h key) record) '', ''"

definition placeholderList :: "'tx Env \<Rightarrow> ('db, 'tx) Helper \<Rightarrow> (val \<times> val) list \<Rightarrow> string" where
  "placeholderList env h record =
     Join (map (\<lambda>(i, value). placeholderFor env (paramType h) i value)
             (enumerate 1 (map snd record))) '', ''"

section \<open>What the specification says of a load\<close>


text \<open>
  The steps of a load as the specification lists them: a statement, or the inserts of
  one table inside the helper's \<open>whileInsertOnTable\<close>.  The inserts are those of the
  records as they are parsed when the helper calls the function, so they are given for
  the state at that moment.  \<open>runSteps\<close> runs the steps in order and stops at the first
  that fails.
\<close>

datatype 'tx step =
    Statement string "val list"
  | AroundTableInsert string "'tx \<Rightarrow> (string \<times> val list) list"


text \<open>
  The records of a fixture file, as parsed at a given moment: the elements of a top-level
  sequence, or the values found for the keys of a top-level mapping, provided each key is
  found.  The file is well formed when it has records and each is a mapping with string
  keys.
\<close>

fun lookupAll :: "(val \<times> val) list \<Rightarrow> val list \<Rightarrow> val list option" where
  "lookupAll entries [] = Some []"
| "lookupAll entries (key # keys) =
     (case MapIndex entries key of
        None \<Rightarrow> None
      | Some r \<Rightarrow> map_option ((#) r) (lookupAll entries keys))"

definition fixtureRecords :: "'tx Env \<Rightarrow> 'tx \<Rightarrow> fixtureFile \<Rightarrow> val list option" where
  "fixtureRecords env tx f =
     (case Unmarshal env tx (content f) of
        Inr (VSlice elems) \<Rightarrow> Some elems
      | Inr (VMap entries) \<Rightarrow> lookupAll entries (map fst entries)
      | _ \<Rightarrow> None)"

fun isRecord :: "val \<Rightarrow> bool" where
  "isRecord (VMap entries) = stringKeys entries"
| "isRecord _ = False"

definition wellFormed :: "'tx Env \<Rightarrow> 'tx \<Rightarrow> fixtureFile \<Rightarrow> bool" where
  "wellFormed env tx f =
     (case fixtureRecords env tx f of Some rs \<Rightarrow> list_all isRecord rs | None \<Rightarrow> False)"




text \<open>The entries of a record, without their order.\<close>

fun entrySet :: "val \<Rightarrow> (val \<times> val) set" where
  "entrySet (VMap entries) = set entries"
| "entrySet _ = {}"

section \<open>Properties\<close>

text \<open>
  C10.  For the empty record \<open>buildInsertSQL\<close> returns no error, the text
  \<open>INSERT INTO <quoted-table> () VALUES ()\<close> and no values.
\<close>

theorem buildInsertSQL_empty_record:
  "buildInsertSQL env h f [] =
     (''INSERT INTO '' @ quoteKeyword h (fileNameWithoutExtension f) @ '' () VALUES ()'',
      [], None)"
  by (simp add: buildInsertSQL_def)

subsection \<open>The loop of \<open>buildInsertSQL\<close>\<close>

lemma Join_snoc: "elems \<noteq> [] \<Longrightarrow> Join (elems @ [a]) sep = Join elems sep @ sep @ a"
  by (induction elems sep rule: Join.induct) auto

lemma Join_nonempty: "elems \<noteq> [] \<Longrightarrow> \<forall>a \<in> set elems. a \<noteq> [] \<Longrightarrow> Join elems sep \<noteq> []"
  by (induction elems sep rule: Join.induct) auto

lemma columnList_empty_iff:
  assumes "\<forall>s. quoteKeyword h s \<noteq> []" and "stringKeys seen"
  shows "columnList h seen = [] \<longleftrightarrow> seen = []"
proof
  assume e: "columnList h seen = []"
  show "seen = []"
  proof (rule ccontr)
    assume ne: "seen \<noteq> []"
    have "\<forall>a \<in> set (map (\<lambda>(key, value). columnOf h key) seen). a \<noteq> []"
      using assms by (auto simp: stringKeys_def list_all_iff elim!: isStringKey.elims)
    with ne have "Join (map (\<lambda>(key, value). columnOf h key) seen) '', '' \<noteq> []"
      by (intro Join_nonempty) auto
    with e show False by (simp add: columnList_def)
  qed
qed (simp add: columnList_def)

lemma columnList_snoc:
  "columnList h (seen @ [(VString s, v)]) =
     (if seen = [] then [] else columnList h seen @ '', '') @ quoteKeyword h s"
  by (simp add: columnList_def Join_snoc)

lemma placeholderList_snoc:
  "placeholderList env h (seen @ [(k, v)]) =
     (if seen = [] then [] else placeholderList env h seen @ '', '')
       @ placeholderFor env (paramType h) (Suc (length seen)) v"
proof (cases "seen = []")
  case True
  then show ?thesis by (simp add: placeholderList_def)
next
  case False
  then have "length (map (\<lambda>(i, value). placeholderFor env (paramType h) i value)
               (enumerate 1 (map snd seen))) \<noteq> 0"
    by simp
  then have "map (\<lambda>(i, value). placeholderFor env (paramType h) i value)
               (enumerate 1 (map snd seen)) \<noteq> []"
    by (simp del: length_map length_enumerate)
  from Join_snoc [OF this] False show ?thesis
    by (simp add: placeholderList_def enumerate_append_eq)
qed

lemma buildInsertLoop_step:
  assumes "\<forall>s. quoteKeyword h s \<noteq> []" and "stringKeys seen"
  shows "buildInsertLoop env h ((VString s, v) # rest) (columnList h seen)
           (placeholderList env h seen) (Suc (length seen)) (map snd seen) =
         buildInsertLoop env h rest (columnList h (seen @ [(VString s, v)]))
           (placeholderList env h (seen @ [(VString s, v)])) (Suc (Suc (length seen)))
           (map snd seen @ [v])"
proof -
  have emp: "columnList h seen = [] \<longleftrightarrow> seen = []"
    using assms by (rule columnList_empty_iff)
  show ?thesis
  proof (cases "seen = []")
    case True
    then show ?thesis
      by (cases "paramType h")
         (simp_all add: columnList_def placeholderList_def placeholderFor_def)
  next
    case False
    with emp show ?thesis
      by (cases "paramType h")
         (simp_all add: columnList_snoc placeholderList_snoc placeholderFor_def)
  qed
qed

lemma buildInsertLoop_closed_form:
  assumes "\<forall>s. quoteKeyword h s \<noteq> []" and "stringKeys (seen @ rest)"
  shows "buildInsertLoop env h rest (columnList h seen) (placeholderList env h seen)
           (Suc (length seen)) (map snd seen) =
         (columnList h (seen @ rest), placeholderList env h (seen @ rest),
          map snd (seen @ rest), None)"
  using assms(2)
proof (induction rest arbitrary: seen)
  case Nil
  then show ?case by simp
next
  case (Cons entry rest)
  obtain k v where entry: "entry = (k, v)" by (cases entry)
  from Cons.prems entry obtain s where k: "k = VString s"
    by (cases k) (auto simp: stringKeys_def)
  from Cons.prems have sk: "stringKeys seen" by (simp add: stringKeys_def)
  have "buildInsertLoop env h (entry # rest) (columnList h seen)
           (placeholderList env h seen) (Suc (length seen)) (map snd seen) =
        buildInsertLoop env h rest (columnList h (seen @ [entry]))
           (placeholderList env h (seen @ [entry])) (Suc (length (seen @ [entry])))
           (map snd (seen @ [entry]))"
    unfolding entry k using buildInsertLoop_step [OF assms(1) sk] by simp
  also have "\<dots> = (columnList h ((seen @ [entry]) @ rest),
                   placeholderList env h ((seen @ [entry]) @ rest),
                   map snd ((seen @ [entry]) @ rest), None)"
    using Cons.prems by (intro Cons.IH) simp
  finally show ?case by simp
qed



lemma buildInsertLoop_key_not_string:
  "\<not> stringKeys record \<Longrightarrow>
     \<exists>c v vs. buildInsertLoop env h record sqlColumns sqlValues i values
                 = (c, v, vs, Some ErrKeyIsNotString)"
proof (induction "record" arbitrary: sqlColumns sqlValues i "values")
  case Nil
  then show ?case by (simp add: stringKeys_def)
next
  case (Cons entry more)
  obtain k v where entry: "entry = (k, v)" by (cases entry)
  show ?case
  proof (cases "isStringKey k")
    case True
    then obtain s where k: "k = VString s" by (cases k) auto
    with Cons.prems entry have "\<not> stringKeys more" by (simp add: stringKeys_def)
    then show ?thesis
      unfolding entry k by (simp add: Let_def Cons.IH split: prod.splits)
  next
    case False
    then show ?thesis
      unfolding entry by (cases k) (simp_all add: Let_def split: prod.splits)
  qed
qed


lemma buildInsertSQL_error:
  "\<not> stringKeys record \<Longrightarrow>
     \<exists>values. buildInsertSQL env h f record = ([], values, Some ErrKeyIsNotString)"
  using buildInsertLoop_key_not_string [of "record" env h "[]" "[]" 1 "[]"]
  by (auto simp: buildInsertSQL_def)



subsection \<open>The compiled statement\<close>

text \<open>
  C4.  For a record whose keys are all strings, and a helper whose \<open>quoteKeyword\<close>
  never returns the empty text, \<open>buildInsertSQL\<close> returns no error and
  \<open>INSERT INTO <quoted-table> (<columns>) VALUES (<placeholders>)\<close>, where the
  columns, the placeholders and the returned values are three maps over the same list of
  entries: the i-th column is the quoted key of the i-th entry, the i-th placeholder is
  that of position i (from 1) for the value of the i-th entry, and the i-th value is the
  value of the i-th entry.
\<close>

theorem buildInsertSQL_position_for_position:
  assumes "stringKeys record" and "\<forall>s. quoteKeyword h s \<noteq> []"
  shows "buildInsertSQL env h f record =
           (''INSERT INTO '' @ quoteKeyword h (fileNameWithoutExtension f)
              @ '' ('' @ Join (map (\<lambda>(key, value). columnOf h key) record) '', ''
              @ '') VALUES (''
              @ Join (map (\<lambda>(i, value). placeholderFor env (paramType h) i value)
                        (enumerate 1 (map snd record))) '', ''
              @ '')'',
            map snd record, None)"
proof -
  have "buildInsertLoop env h record [] [] 1 [] =
        (columnList h record, placeholderList env h record, map snd record, None)"
    using buildInsertLoop_closed_form [where seen = "[]" and rest = "record" and h = h and env = env]
      assms
    by (simp add: columnList_def placeholderList_def)
  then show ?thesis
    by (simp add: buildInsertSQL_def columnList_def placeholderList_def)
qed

text \<open>
  C4 at a record of two entries, with the dollar style and square brackets.
\<close>

theorem buildInsertSQL_position_for_position_witness:
  "stringKeys [(VString ''id'', VInt 1), (VString ''title'', VString ''a'')]
   \<and> (\<forall>s. quoteKeyword (mockHelper ''db_test'' paramTypeDollar) s \<noteq> [])
   \<and> buildInsertSQL (mockEnv (\<lambda>s. False) False) (mockHelper ''db_test'' paramTypeDollar)
         (mockFile ''posts.yml'' [])
         [(VString ''id'', VInt 1), (VString ''title'', VString ''a'')]
       = (''INSERT INTO [posts] ([id], [title]) VALUES ($1, $2)'',
          [VInt 1, VString ''a''], None)"
proof -
  have keys: "stringKeys [(VString ''id'', VInt 1), (VString ''title'', VString ''a'')]"
    by (simp add: stringKeys_def)
  have quote: "\<forall>s. quoteKeyword (mockHelper ''db_test'' paramTypeDollar) s \<noteq> []"
    by (simp add: mockHelper_def)
  have "buildInsertSQL (mockEnv (\<lambda>s. False) False) (mockHelper ''db_test'' paramTypeDollar)
         (mockFile ''posts.yml'' [])
         [(VString ''id'', VInt 1), (VString ''title'', VString ''a'')]
       = (''INSERT INTO [posts] ([id], [title]) VALUES ($1, $2)'',
          [VInt 1, VString ''a''], None)"
    unfolding buildInsertSQL_position_for_position [OF keys quote]
    by code_simp
  with keys quote show ?thesis by blast
qed

text \<open>
  C7.  In the colon style, for a record with string keys and a helper whose
  \<open>quoteKeyword\<close> never returns the empty text, the placeholder of position i (from 1)
  is \<open>to_date(:i, 'YYYY-MM-DD HH24:MI:SS')\<close> for a value that \<open>isDateTime\<close>
  accepts, whatever \<open>isDate\<close> and \<open>isTime\<close> say of it; otherwise
  \<open>to_date(:i, 'YYYY-MM-DD')\<close> for a value that \<open>isDate\<close> accepts; otherwise
  \<open>to_date(:i, 'HH24:MI:SS')\<close> for a value that \<open>isTime\<close> accepts; and the bare
  \<open>:i\<close> for a value that none of the three accepts.
\<close>

theorem colon_placeholders_cast_dates:
  assumes "paramType h = paramTypeColon"
    and "stringKeys record" and "\<forall>s. quoteKeyword h s \<noteq> []"
  shows "fst (buildInsertSQL env h f record) =
           ''INSERT INTO '' @ quoteKeyword h (fileNameWithoutExtension f)
             @ '' ('' @ Join (map (\<lambda>(key, value). columnOf h key) record) '', ''
             @ '') VALUES (''
             @ Join (map (\<lambda>(i, value).
                            if isDateTime env value then
                              ''to_date(:'' @ itoa i @ '', 'YYYY-MM-DD HH24:MI:SS')''
                            else if isDate env value then
                              ''to_date(:'' @ itoa i @ '', 'YYYY-MM-DD')''
                            else if isTime env value then
                              ''to_date(:'' @ itoa i @ '', 'HH24:MI:SS')''
                            else '':'' @ itoa i)
                       (enumerate 1 (map snd record))) '', ''
             @ '')''"
proof -
  have "buildInsertLoop env h record [] [] 1 [] =
        (columnList h record, placeholderList env h record, map snd record, None)"
    using buildInsertLoop_closed_form [where seen = "[]" and rest = "record" and h = h and env = env]
      assms(2,3)
    by (simp add: columnList_def placeholderList_def)
  then show ?thesis
    by (simp add: buildInsertSQL_def columnList_def placeholderList_def placeholderFor_def
        assms(1))
qed

text \<open>C7 at a record with a datetime, a date, a time and a number.\<close>

theorem colon_placeholders_cast_dates_witness:
  "paramType (mockHelper ''db_test'' paramTypeColon) = paramTypeColon
   \<and> stringKeys [(VString ''a'', VString ''2016-01-01 12:30:12''),
                  (VString ''b'', VString ''2016-01-01''),
                  (VString ''c'', VString ''12:30:12''),
                  (VString ''d'', VInt 3)]
   \<and> (\<forall>s. quoteKeyword (mockHelper ''db_test'' paramTypeColon) s \<noteq> [])
   \<and> fst (buildInsertSQL (mockEnv (\<lambda>s. False) False) (mockHelper ''db_test'' paramTypeColon)
         (mockFile ''posts.yml'' [])
         [(VString ''a'', VString ''2016-01-01 12:30:12''),
          (VString ''b'', VString ''2016-01-01''),
          (VString ''c'', VString ''12:30:12''),
          (VString ''d'', VInt 3)])
       = ''INSERT INTO [posts] ([a], [b], [c], [d]) VALUES (to_date(:1, 'YYYY-MM-DD HH24:MI:SS'), to_date(:2, 'YYYY-MM-DD'), to_date(:3, 'HH24:MI:SS'), :4)''"
proof -
  have style: "paramType (mockHelper ''db_test'' paramTypeColon) = paramTypeColon"
    by (simp add: mockHelper_def)
  have keys: "stringKeys [(VString ''a'', VString ''2016-01-01 12:30:12''),
                  (VString ''b'', VString ''2016-01-01''),
                  (VString ''c'', VString ''12:30:12''),
                  (VString ''d'', VInt 3)]"
    by (simp add: stringKeys_def)
  have quote: "\<forall>s. quoteKeyword (mockHelper ''db_test'' paramTypeColon) s \<noteq> []"
    by (simp add: mockHelper_def)
  have "fst (buildInsertSQL (mockEnv (\<lambda>s. False) False) (mockHelper ''db_test'' paramTypeColon)
         (mockFile ''posts.yml'' [])
         [(VString ''a'', VString ''2016-01-01 12:30:12''),
          (VString ''b'', VString ''2016-01-01''),
          (VString ''c'', VString ''12:30:12''),
          (VString ''d'', VInt 3)])
       = ''INSERT INTO [posts] ([a], [b], [c], [d]) VALUES (to_date(:1, 'YYYY-MM-DD HH24:MI:SS'), to_date(:2, 'YYYY-MM-DD'), to_date(:3, 'HH24:MI:SS'), :4)''"
    unfolding colon_placeholders_cast_dates [OF style keys quote]
    by code_simp
  with style keys quote show ?thesis by blast
qed



subsection \<open>The file name\<close>

text \<open>
  C6.  The table name is not always the file name without its extension:
  \<open>strings.Replace\<close> removes the first instance of the extension, so for
  \<open>a.ymlb.yml\<close> the table is \<open>ab.yml\<close>, not \<open>a.ymlb\<close>.
\<close>

theorem fileNameWithoutExtension_replaces_first_instance:
  "fileNameWithoutExtension \<lparr>path = ''fixtures/a.ymlb.yml'', fileName = ''a.ymlb.yml'', content = []\<rparr>
     = ''ab.yml''"
  by code_simp

text \<open>For \<open>posts.yml\<close>, the name that \<open>TestFixtureFile\<close> checks, the table is \<open>posts\<close>.\<close>

lemma fileNameWithoutExtension_posts:
  "fileNameWithoutExtension \<lparr>path = ''posts.yml'', fileName = ''posts.yml'', content = []\<rparr>
     = ''posts''"
  by code_simp

subsection \<open>The top level of a fixture file\<close>

text \<open>
  C9.  For a file that holds the null scalar \<open>~\<close> (or nothing at all) the parser
  stores nil in \<open>rows\<close>, and \<open>insert\<close> panics in \<open>t.Kind()\<close> instead of returning
  \<open>ErrFileIsNotSliceOrMap\<close>.
\<close>

theorem insert_panics_on_nil:
  "insert_file (mockEnv (\<lambda>s. False) False) (mockHelper ''db_test'' paramTypeDollar)
     (mockFile ''posts.yml'' ''~'') [] = (Some NilTypePanic, [])"
  by code_simp

text \<open>The scalars do reach the \<open>default\<close> case, and nothing is executed.\<close>

lemma insert_file_scalar:
  assumes "Unmarshal env tx (content f) = Inr rows"
    and "rows = VBool b \<or> rows = VInt n \<or> rows = VFloat w \<or> rows = VString s"
  shows "insert_file env h f tx = (Some ErrFileIsNotSliceOrMap, tx)"
  using assms by (auto simp: insert_file_def)

subsection \<open>Load\<close>


text \<open>
  The loop over a map is the loop over a slice on the values found, when every key is
  found; and it returns no error only then.
\<close>

lemma insertMapRecords_lookupAll:
  "lookupAll entries keys = Some rs \<Longrightarrow>
     insertMapRecords env h f entries keys tx = insertRecords env h f rs tx"
proof (induction keys arbitrary: rs tx)
  case Nil
  then show ?case by simp
next
  case (Cons key keys)
  from Cons.prems obtain r rs' where r: "MapIndex entries key = Some r"
    and rs': "lookupAll entries keys = Some rs'" and rs: "rs = r # rs'"
    by (auto split: option.splits)
  show ?case
    by (simp add: r rs Cons.IH [OF rs'] split: val.splits prod.splits option.splits)
qed

lemma insertMapRecords_no_error_lookupAll:
  "insertMapRecords env h f entries keys tx = (None, tx') \<Longrightarrow>
     \<exists>rs. lookupAll entries keys = Some rs"
proof (induction keys arbitrary: tx)
  case Nil
  then show ?case by simp
next
  case (Cons key keys)
  from Cons.prems obtain r where r: "MapIndex entries key = Some r"
    by (auto split: option.splits)
  from Cons.prems obtain m where "insertMapRecords env h f entries keys m = (None, tx')"
    by (auto simp: r split: val.splits prod.splits option.splits)
  from Cons.IH [OF this] show ?case
    by (auto simp: r)
qed

lemma insert_file_fixtureRecords:
  "fixtureRecords env tx f = Some rs \<Longrightarrow>
     insert_file env h f tx = insertRecords env h f rs tx"
  by (auto simp: fixtureRecords_def insert_file_def insertMapRecords_lookupAll
      split: sum.splits val.splits)

lemma insert_file_no_error_fixtureRecords:
  assumes "insert_file env h f tx = (None, tx')"
  shows "\<exists>rs. fixtureRecords env tx f = Some rs"
  using assms insertMapRecords_no_error_lookupAll [of env h f _ _ tx tx']
  by (auto simp: fixtureRecords_def insert_file_def split: sum.splits val.splits)



text \<open>Only a well-formed file has inserts that return no error.\<close>

lemma insertRecords_no_error_records:
  "insertRecords env h f rs tx = (None, tx') \<Longrightarrow> list_all isRecord rs"
proof (induction rs arbitrary: tx)
  case Nil
  then show ?case by simp
next
  case (Cons r rs)
  from Cons.prems obtain entries where r: "r = VMap entries"
    by (cases r) auto
  have keys: "stringKeys entries"
  proof (rule ccontr)
    assume "\<not> stringKeys entries"
    from buildInsertSQL_error [OF this, of env h f]
    obtain vs where "buildInsertSQL env h f entries = ([], vs, Some ErrKeyIsNotString)"
      by blast
    with Cons.prems show False
      unfolding r by simp
  qed
  from Cons.prems obtain m where "insertRecords env h f rs m = (None, tx')"
    unfolding r by (auto split: prod.splits option.splits)
  from Cons.IH [OF this] keys show ?case
    by (simp add: r)
qed

lemma insert_file_no_error_wellFormed:
  assumes "insert_file env h f tx = (None, tx')"
  shows "wellFormed env tx f"
proof -
  from insert_file_no_error_fixtureRecords [OF assms]
  obtain rs where rs: "fixtureRecords env tx f = Some rs"
    by blast
  with assms have "insertRecords env h f rs tx = (None, tx')"
    by (simp add: insert_file_fixtureRecords)
  with insertRecords_no_error_records [of env h f rs tx tx'] rs show ?thesis
    by (simp add: wellFormed_def)
qed

text \<open>
  A top-level mapping with a key that is not a number is not well formed: the loop
  inserts the records before that key and then panics.
\<close>

lemma insert_panics_on_NaN_key:
  "insert_file (mockEnv (\<lambda>s. False) False) (mockHelper ''db_test'' paramTypeDollar)
     (mockFile ''users.yml'' ''first: {name: x}\<newline>.nan: {name: z}'') []
   = (Some ZeroValuePanic, [(''INSERT INTO [users] ([name]) VALUES ($1)'', [VString ''x''])])"
  by code_simp

lemma NaN_key_not_wellFormed:
  "\<not> wellFormed (mockEnv (\<lambda>s. False) False) []
       (mockFile ''users.yml'' ''first: {name: x}\<newline>.nan: {name: z}'')"
  by code_simp

text \<open>
  C3.  With the check enabled and a database name that \<open>dbnameRegexp\<close> does not match,
  \<open>Load\<close> returns \<open>errNotTestDatabase\<close> and the database as it was: it does not call
  \<open>disableReferentialIntegrity\<close>, so no statement is executed, whatever the fixture
  files and the driver are.  With \<open>skipDatabaseNameCheck\<close> set, \<open>Load\<close> is the call
  of \<open>disableReferentialIntegrity\<close>, whatever the name is.
\<close>

theorem Load_refuses_other_databases:
  "(\<not> skipDatabaseNameCheck env \<and> \<not> dbnameMatchString env (databaseName (helper c) (db c))
      \<longrightarrow> Load env c = (Some errNotTestDatabase, db c))
   \<and> (skipDatabaseNameCheck env
      \<longrightarrow> Load env c = disableReferentialIntegrity (helper c) (db c)
                          (loadFiles env (helper c) (fixturesFiles c)))"
  by (simp add: Load_def)

text \<open>
  C3 at the database \<open>production\<close>, with the check enabled and with the check skipped.
\<close>

theorem Load_refuses_other_databases_witness:
  "(\<not> skipDatabaseNameCheck (mockEnv (\<lambda>s. False) False)
    \<and> \<not> dbnameMatchString (mockEnv (\<lambda>s. False) False) ''production''
    \<and> Load (mockEnv (\<lambda>s. False) False)
         \<lparr>db = [(''earlier'', [])], helper = mockHelper ''production'' paramTypeDollar,
          fixturesFiles = [mockFile ''posts.yml'' ''- {id: 1, title: a}'']\<rparr>
       = (Some errNotTestDatabase, [(''earlier'', [])]))
   \<and> (skipDatabaseNameCheck (mockEnv (\<lambda>s. False) True)
    \<and> Load (mockEnv (\<lambda>s. False) True)
         \<lparr>db = [(''earlier'', [])], helper = mockHelper ''production'' paramTypeDollar,
          fixturesFiles = [mockFile ''posts.yml'' ''- {id: 1, title: a}'']\<rparr>
       = (None, [(''earlier'', []), (''DELETE FROM [posts]'', []),
                 (''INSERT INTO [posts] ([id], [title]) VALUES ($1, $2)'',
                  [VInt 1, VString ''a''])]))"
proof -
  let ?c = "\<lparr>db = [(''earlier'', [])], helper = mockHelper ''production'' paramTypeDollar,
          fixturesFiles = [mockFile ''posts.yml'' ''- {id: 1, title: a}'']\<rparr>"
  have name: "databaseName (helper ?c) (db ?c) = ''production''"
    by (simp add: mockHelper_def)
  have on: "\<not> skipDatabaseNameCheck (mockEnv (\<lambda>s. False) False)
            \<and> \<not> dbnameMatchString (mockEnv (\<lambda>s. False) False) ''production''"
    by (simp add: mockEnv_def)
  have off: "skipDatabaseNameCheck (mockEnv (\<lambda>s. False) True)"
    by (simp add: mockEnv_def)
  have run: "disableReferentialIntegrity (helper ?c) (db ?c)
               (loadFiles (mockEnv (\<lambda>s. False) True) (helper ?c) (fixturesFiles ?c))
             = (None, [(''earlier'', []), (''DELETE FROM [posts]'', []),
                 (''INSERT INTO [posts] ([id], [title]) VALUES ($1, $2)'',
                  [VInt 1, VString ''a''])])"
    by code_simp
  from Load_refuses_other_databases [of "mockEnv (\<lambda>s. False) False" ?c]
    Load_refuses_other_databases [of "mockEnv (\<lambda>s. False) True" ?c]
    name on off run
  show ?thesis by simp
qed





subsection \<open>Loading twice\<close>

text \<open>
  The rows of the tables are a parameter, \<open>rows\<close> on a transaction and \<open>dbRows\<close> on
  the database.  When an \<open>INSERT\<close> compiled for a record changes the rows of its table
  only, by \<open>withRow\<close> of the entries of the record, the inserts of a list of records
  leave the rows that folding \<open>withRow\<close> over the records gives.
\<close>

lemma insertRecords_rows:
  fixes rows :: "'tx \<Rightarrow> string \<Rightarrow> 'rows"
  assumes "\<And>entries sqlStr vs tx tx'. VMap entries \<in> set rs \<Longrightarrow>
        buildInsertSQL env h f entries = (sqlStr, vs, None) \<Longrightarrow>
        Exec env tx sqlStr vs = (None, tx') \<Longrightarrow>
        \<forall>u \<in> T. rows tx' u =
          (if u = fileNameWithoutExtension f then withRow (set entries) (rows tx u)
           else rows tx u)"
    and "insertRecords env h f rs a = (None, b)"
    and "u \<in> T"
  shows "rows b u =
           (if u = fileNameWithoutExtension f then fold withRow (map entrySet rs) (rows a u)
            else rows a u)"
  using assms
proof (induction rs arbitrary: a)
  case Nil
  then show ?case by simp
next
  case (Cons r rs)
  from Cons.prems(2) obtain entries where r: "r = VMap entries"
    by (cases r) auto
  from Cons.prems(2) obtain sqlStr vs where b: "buildInsertSQL env h f entries = (sqlStr, vs, None)"
    unfolding r by (auto split: prod.splits option.splits)
  from Cons.prems(2) obtain m where e: "Exec env a sqlStr vs = (None, m)"
    and run: "insertRecords env h f rs m = (None, b)"
    unfolding r by (auto simp: b split: prod.splits option.splits)
  have "VMap entries \<in> set (r # rs)"
    by (simp add: r)
  from Cons.prems(1) [OF this b e] Cons.prems(3)
  have m: "rows m u = (if u = fileNameWithoutExtension f then withRow (set entries) (rows a u)
                       else rows a u)"
    by simp
  have "rows b u =
           (if u = fileNameWithoutExtension f then fold withRow (map entrySet rs) (rows m u)
            else rows m u)"
  proof (rule Cons.IH [OF _ run Cons.prems(3)])
    fix entries' sqlStr' vs' tx tx'
    assume "VMap entries' \<in> set rs"
      and "buildInsertSQL env h f entries' = (sqlStr', vs', None)"
      and "Exec env tx sqlStr' vs' = (None, tx')"
    then show "\<forall>u \<in> T. rows tx' u =
          (if u = fileNameWithoutExtension f then withRow (set entries') (rows tx u)
           else rows tx u)"
      by (intro Cons.prems(1)) simp_all
  qed
  with m show ?case
    by (cases "u = fileNameWithoutExtension f") (simp_all add: r)
qed

lemma loadFiles_same_rows:
  fixes rows :: "'tx \<Rightarrow> string \<Rightarrow> 'rows"
  assumes same: "\<And>f s s' rs rs'. f \<in> set files \<Longrightarrow>
        fixtureRecords env s f = Some rs \<Longrightarrow> fixtureRecords env s' f = Some rs' \<Longrightarrow>
        mset (map entrySet rs) = mset (map entrySet rs')"
    and around: "\<And>tx tableName fn tx'.
        whileInsertOnTable h tx tableName fn = (None, tx') \<Longrightarrow>
        \<exists>a b. fn a = (None, b) \<and> (\<forall>u \<in> T. rows a u = rows tx u \<and> rows tx' u = rows b u)"
    and del: "\<And>f tx tx'. f \<in> set files \<Longrightarrow> delete env h f tx = (None, tx') \<Longrightarrow>
        \<forall>u \<in> T. rows tx' u = (if u = fileNameWithoutExtension f then noRows else rows tx u)"
    and ins: "\<And>f s rs entries sqlStr vs tx tx'. f \<in> set files \<Longrightarrow>
        fixtureRecords env s f = Some rs \<Longrightarrow> VMap entries \<in> set rs \<Longrightarrow>
        buildInsertSQL env h f entries = (sqlStr, vs, None) \<Longrightarrow>
        Exec env tx sqlStr vs = (None, tx') \<Longrightarrow>
        \<forall>u \<in> T. rows tx' u =
          (if u = fileNameWithoutExtension f then withRow (set entries) (rows tx u)
           else rows tx u)"
    and comm: "\<And>x y r. withRow x (withRow y r) = withRow y (withRow x r)"
    and "loadFiles env h fs a1 = (None, b1)"
    and "loadFiles env h fs a2 = (None, b2)"
    and "set fs \<subseteq> set files" and "u \<in> T"
    and "u \<in> fileNameWithoutExtension ` set fs \<or> rows a1 u = rows a2 u"
  shows "rows b1 u = rows b2 u"
  using assms(6-)
proof (induction fs arbitrary: a1 a2)
  case Nil
  then show ?case by simp
next
  case (Cons f fs)
  from Cons.prems(3) have f: "f \<in> set files" and fs: "set fs \<subseteq> set files"
    by simp_all
  let ?t = "fileNameWithoutExtension f"
  from Cons.prems(1) obtain d1 w1 where d1: "delete env h f a1 = (None, d1)"
    and w1: "whileInsertOnTable h d1 ?t (insert_file env h f) = (None, w1)"
    and l1: "loadFiles env h fs w1 = (None, b1)"
    by (auto split: prod.splits option.splits)
  from Cons.prems(2) obtain d2 w2 where d2: "delete env h f a2 = (None, d2)"
    and w2: "whileInsertOnTable h d2 ?t (insert_file env h f) = (None, w2)"
    and l2: "loadFiles env h fs w2 = (None, b2)"
    by (auto split: prod.splits option.splits)
  from around [OF w1] obtain i1 j1 where i1: "insert_file env h f i1 = (None, j1)"
    and s1: "\<forall>u \<in> T. rows i1 u = rows d1 u \<and> rows w1 u = rows j1 u"
    by blast
  from around [OF w2] obtain i2 j2 where i2: "insert_file env h f i2 = (None, j2)"
    and s2: "\<forall>u \<in> T. rows i2 u = rows d2 u \<and> rows w2 u = rows j2 u"
    by blast
  from insert_file_no_error_fixtureRecords [OF i1]
  obtain rs1 where rs1: "fixtureRecords env i1 f = Some rs1" by blast
  from insert_file_no_error_fixtureRecords [OF i2]
  obtain rs2 where rs2: "fixtureRecords env i2 f = Some rs2" by blast
  from i1 rs1 have r1: "insertRecords env h f rs1 i1 = (None, j1)"
    by (simp add: insert_file_fixtureRecords)
  from i2 rs2 have r2: "insertRecords env h f rs2 i2 = (None, j2)"
    by (simp add: insert_file_fixtureRecords)
  have j1: "rows j1 u = (if u = ?t then fold withRow (map entrySet rs1) (rows i1 u)
                          else rows i1 u)"
  proof (rule insertRecords_rows [where T = T and rows = rows and withRow = withRow,
        OF _ r1 \<open>u \<in> T\<close>])
    fix entries sqlStr vs tx tx'
    assume "VMap entries \<in> set rs1"
      and "buildInsertSQL env h f entries = (sqlStr, vs, None)"
      and "Exec env tx sqlStr vs = (None, tx')"
    then show "\<forall>u \<in> T. rows tx' u =
          (if u = fileNameWithoutExtension f then withRow (set entries) (rows tx u)
           else rows tx u)"
      by (rule ins [OF f rs1])
  qed
  have j2: "rows j2 u = (if u = ?t then fold withRow (map entrySet rs2) (rows i2 u)
                          else rows i2 u)"
  proof (rule insertRecords_rows [where T = T and rows = rows and withRow = withRow,
        OF _ r2 \<open>u \<in> T\<close>])
    fix entries sqlStr vs tx tx'
    assume "VMap entries \<in> set rs2"
      and "buildInsertSQL env h f entries = (sqlStr, vs, None)"
      and "Exec env tx sqlStr vs = (None, tx')"
    then show "\<forall>u \<in> T. rows tx' u =
          (if u = fileNameWithoutExtension f then withRow (set entries) (rows tx u)
           else rows tx u)"
      by (rule ins [OF f rs2])
  qed
  have folds: "fold withRow (map entrySet rs1) = fold withRow (map entrySet rs2)"
    by (rule fold_multiset_equiv [OF _ same [OF f rs1 rs2]]) (simp add: comm fun_eq_iff)
  have step: "rows w1 u = rows w2 u" if agree: "u = ?t \<or> rows a1 u = rows a2 u"
  proof -
    from del [OF f d1] del [OF f d2] agree \<open>u \<in> T\<close> have "rows d1 u = rows d2 u"
      by auto
    with s1 s2 \<open>u \<in> T\<close> have "rows i1 u = rows i2 u"
      by simp
    with j1 j2 folds have "rows j1 u = rows j2 u"
      by (cases "u = ?t") simp_all
    with s1 s2 \<open>u \<in> T\<close> show ?thesis by simp
  qed
  from Cons.prems(5) step
  have "u \<in> fileNameWithoutExtension ` set fs \<or> rows w1 u = rows w2 u"
    by auto
  from Cons.IH [OF l1 l2 fs \<open>u \<in> T\<close> this] show ?case .
qed

text \<open>
  C5, as it is stated, fails.  \<open>Load\<close> executes only \<open>DELETE\<close> and \<open>INSERT\<close>, so
  what the database keeps across a \<open>DELETE\<close> shows in the rows of the second call: on
  a database with a serial column and a fixture file whose records leave that column
  out, both calls return no error, the first leaves the rows numbered 0 and 1 in the
  table and the second the rows numbered 2 and 3.
\<close>

theorem Load_twice_serial_counterexample:
  "Load serialEnv
     \<lparr>db = (0, []), helper = serialHelper,
      fixturesFiles = [mockFile ''tags.yml'' ''- {name: x}\<newline>- {name: z}'']\<rparr>
     = (None, (2, [(''[tags]'', 0, [VString ''x'']), (''[tags]'', 1, [VString ''z''])]))
   \<and> Load serialEnv
     \<lparr>db = (2, [(''[tags]'', 0, [VString ''x'']), (''[tags]'', 1, [VString ''z''])]),
      helper = serialHelper,
      fixturesFiles = [mockFile ''tags.yml'' ''- {name: x}\<newline>- {name: z}'']\<rparr>
     = (None, (4, [(''[tags]'', 2, [VString ''x'']), (''[tags]'', 3, [VString ''z''])]))
   \<and> serialRows (2, [(''[tags]'', 0, [VString ''x'']), (''[tags]'', 1, [VString ''z''])]) ''tags''
       = [(0, [VString ''x'']), (1, [VString ''z''])]
   \<and> serialRows (4, [(''[tags]'', 2, [VString ''x'']), (''[tags]'', 3, [VString ''z''])]) ''tags''
       = [(2, [VString ''x'']), (3, [VString ''z''])]
   \<and> serialRows (4, [(''[tags]'', 2, [VString ''x'']), (''[tags]'', 3, [VString ''z''])]) ''tags''
       \<noteq> serialRows (2, [(''[tags]'', 0, [VString ''x'']), (''[tags]'', 1, [VString ''z''])]) ''tags''"
  by code_simp

text \<open>
  C5, amended.  Let two calls of \<open>Load\<close> in succession, with the same fixture files,
  both return no error, the second on the database that the first left; the parser
  stores the same records for a file whenever it is called, but the order of the entries
  of each map, and of the records of a top-level mapping, may differ from call to call
  (\<open>same\<close>).  Then every table of a fixture file has the same rows after the second
  call as after the first, on a database where the rows of a table are determined by the
  statements executed on it:
  \<^item> a \<open>DELETE\<close> that returns no error leaves its table with no rows and the other
    tables as they were (\<open>del\<close>);
  \<^item> an \<open>INSERT\<close> that returns no error leaves the other tables as they were, and in
    its table the rows that \<open>withRow\<close> gives from the entries of the record, whatever
    their order, and the rows before (\<open>ins\<close>); the order of two inserts does not
    matter (\<open>comm\<close>);
  \<^item> when \<open>disableReferentialIntegrity\<close> returns no error, the function has run
    without error on some transaction, and the tables of the database have the rows of
    that transaction (\<open>bracket\<close>);
  \<^item> when \<open>whileInsertOnTable\<close> returns no error, the function has run without error,
    and the helper's own actions before and after it have not changed the rows
    (\<open>around\<close>).
\<close>

theorem Load_twice_same_rows:
  fixes rows :: "'tx \<Rightarrow> string \<Rightarrow> 'rows" and dbRows :: "'db \<Rightarrow> string \<Rightarrow> 'rows"
  assumes first: "Load env c = (None, db1)"
    and second: "Load env (c\<lparr>db := db1\<rparr>) = (None, db2)"
    and same: "\<And>f s s' rs rs'. f \<in> set (fixturesFiles c) \<Longrightarrow>
        fixtureRecords env s f = Some rs \<Longrightarrow> fixtureRecords env s' f = Some rs' \<Longrightarrow>
        mset (map entrySet rs) = mset (map entrySet rs')"
    and bracket: "\<And>d loadFn d'.
        disableReferentialIntegrity (helper c) d loadFn = (None, d') \<Longrightarrow>
        \<exists>tx tx'. loadFn tx = (None, tx')
           \<and> (\<forall>g \<in> set (fixturesFiles c).
                 dbRows d' (fileNameWithoutExtension g) = rows tx' (fileNameWithoutExtension g))"
    and around: "\<And>tx tableName fn tx'.
        whileInsertOnTable (helper c) tx tableName fn = (None, tx') \<Longrightarrow>
        \<exists>a b. fn a = (None, b)
           \<and> (\<forall>g \<in> set (fixturesFiles c).
                 rows a (fileNameWithoutExtension g) = rows tx (fileNameWithoutExtension g)
                 \<and> rows tx' (fileNameWithoutExtension g) = rows b (fileNameWithoutExtension g))"
    and del: "\<And>f tx tx'. f \<in> set (fixturesFiles c) \<Longrightarrow>
        delete env (helper c) f tx = (None, tx') \<Longrightarrow>
        \<forall>g \<in> set (fixturesFiles c). rows tx' (fileNameWithoutExtension g) =
          (if fileNameWithoutExtension g = fileNameWithoutExtension f then noRows
           else rows tx (fileNameWithoutExtension g))"
    and ins: "\<And>f s rs entries sqlStr vs tx tx'. f \<in> set (fixturesFiles c) \<Longrightarrow>
        fixtureRecords env s f = Some rs \<Longrightarrow> VMap entries \<in> set rs \<Longrightarrow>
        buildInsertSQL env (helper c) f entries = (sqlStr, vs, None) \<Longrightarrow>
        Exec env tx sqlStr vs = (None, tx') \<Longrightarrow>
        \<forall>g \<in> set (fixturesFiles c). rows tx' (fileNameWithoutExtension g) =
          (if fileNameWithoutExtension g = fileNameWithoutExtension f
           then withRow (set entries) (rows tx (fileNameWithoutExtension g))
           else rows tx (fileNameWithoutExtension g))"
    and comm: "\<And>x y r. withRow x (withRow y r) = withRow y (withRow x r)"
  shows "\<forall>f \<in> set (fixturesFiles c).
           dbRows db2 (fileNameWithoutExtension f) = dbRows db1 (fileNameWithoutExtension f)"
proof
  fix f assume f: "f \<in> set (fixturesFiles c)"
  let ?h = "helper c" and ?files = "fixturesFiles c"
  let ?T = "fileNameWithoutExtension ` set ?files"
  from first have "disableReferentialIntegrity ?h (db c) (loadFiles env ?h ?files) = (None, db1)"
    by (auto simp: Load_def split: if_splits)
  from bracket [OF this] obtain a1 b1 where l1: "loadFiles env ?h ?files a1 = (None, b1)"
    and o1: "\<forall>g \<in> set ?files. dbRows db1 (fileNameWithoutExtension g)
                                 = rows b1 (fileNameWithoutExtension g)"
    by blast
  from second have "disableReferentialIntegrity ?h db1 (loadFiles env ?h ?files) = (None, db2)"
    by (auto simp: Load_def split: if_splits)
  from bracket [OF this] obtain a2 b2 where l2: "loadFiles env ?h ?files a2 = (None, b2)"
    and o2: "\<forall>g \<in> set ?files. dbRows db2 (fileNameWithoutExtension g)
                                 = rows b2 (fileNameWithoutExtension g)"
    by blast
  have around': "\<exists>a b. fn a = (None, b) \<and> (\<forall>u \<in> ?T. rows a u = rows tx u \<and> rows tx' u = rows b u)"
    if "whileInsertOnTable ?h tx tableName fn = (None, tx')" for tx tableName fn tx'
    using around [OF that] by auto
  have del': "\<forall>u \<in> ?T. rows tx' u = (if u = fileNameWithoutExtension g then noRows else rows tx u)"
    if "g \<in> set ?files" "delete env ?h g tx = (None, tx')" for g tx tx'
    using del [OF that] by auto
  have ins': "\<forall>u \<in> ?T. rows tx' u =
          (if u = fileNameWithoutExtension g then withRow (set entries) (rows tx u)
           else rows tx u)"
    if "g \<in> set ?files" "fixtureRecords env s g = Some rs" "VMap entries \<in> set rs"
      "buildInsertSQL env ?h g entries = (sqlStr, vs, None)"
      "Exec env tx sqlStr vs = (None, tx')" for g s rs entries sqlStr vs tx tx'
    using ins [OF that] by auto
  from f have t: "fileNameWithoutExtension f \<in> ?T" by simp
  then have "fileNameWithoutExtension f \<in> fileNameWithoutExtension ` set ?files
               \<or> rows a1 (fileNameWithoutExtension f) = rows a2 (fileNameWithoutExtension f)"
    by simp
  from loadFiles_same_rows [where rows = rows and T = ?T and files = ?files
      and withRow = withRow, OF same around' del' ins' comm l1 l2 subset_refl t this]
  have "rows b1 (fileNameWithoutExtension f) = rows b2 (fileNameWithoutExtension f)" .
  with o1 o2 f show "dbRows db2 (fileNameWithoutExtension f) = dbRows db1 (fileNameWithoutExtension f)"
    by simp
qed

text \<open>What recording one more statement does to the rows of \<open>mockBag\<close>.\<close>

lemma mockBag_snoc:
  "mockBag (tx @ [(sqlStr, vs)]) tableName =
     (if sqlStr = ''DELETE FROM ['' @ tableName @ '']'' then {#}
      else if HasPrefix sqlStr (''INSERT INTO ['' @ tableName @ ''] ('')
        then add_mset (set (zip (mockColumns sqlStr) vs)) (mockBag tx tableName)
      else mockBag tx tableName)"
  by (simp add: mockBag_def)

text \<open>
  C5, amended, on the recorded statements of \<open>mockExec\<close>, with a file whose top level
  is a sequence and one whose top level is a mapping: the second call visits the entries
  of the record of \<open>posts\<close> and the records of \<open>users\<close> in the opposite order, and
  leaves the same rows.
\<close>

theorem Load_twice_same_rows_witness:
  "Load redrawEnv
     \<lparr>db = [], helper = mockHelper ''db_test'' paramTypeDollar,
      fixturesFiles = [mockFile ''posts.yml'' ''- {id: 1, title: a}'',
                       mockFile ''users.yml'' ''first: {name: x}\<newline>second: {name: z}'']\<rparr>
     = (None,
        [(''DELETE FROM [posts]'', []),
         (''INSERT INTO [posts] ([id], [title]) VALUES ($1, $2)'', [VInt 1, VString ''a'']),
         (''DELETE FROM [users]'', []),
         (''INSERT INTO [users] ([name]) VALUES ($1)'', [VString ''x'']),
         (''INSERT INTO [users] ([name]) VALUES ($1)'', [VString ''z''])])
   \<and> Load redrawEnv
     \<lparr>db = [(''DELETE FROM [posts]'', []),
            (''INSERT INTO [posts] ([id], [title]) VALUES ($1, $2)'', [VInt 1, VString ''a'']),
            (''DELETE FROM [users]'', []),
            (''INSERT INTO [users] ([name]) VALUES ($1)'', [VString ''x'']),
            (''INSERT INTO [users] ([name]) VALUES ($1)'', [VString ''z''])],
      helper = mockHelper ''db_test'' paramTypeDollar,
      fixturesFiles = [mockFile ''posts.yml'' ''- {id: 1, title: a}'',
                       mockFile ''users.yml'' ''first: {name: x}\<newline>second: {name: z}'']\<rparr>
     = (None,
        [(''DELETE FROM [posts]'', []),
         (''INSERT INTO [posts] ([id], [title]) VALUES ($1, $2)'', [VInt 1, VString ''a'']),
         (''DELETE FROM [users]'', []),
         (''INSERT INTO [users] ([name]) VALUES ($1)'', [VString ''x'']),
         (''INSERT INTO [users] ([name]) VALUES ($1)'', [VString ''z'']),
         (''DELETE FROM [posts]'', []),
         (''INSERT INTO [posts] ([title], [id]) VALUES ($1, $2)'', [VString ''a'', VInt 1]),
         (''DELETE FROM [users]'', []),
         (''INSERT INTO [users] ([name]) VALUES ($1)'', [VString ''z'']),
         (''INSERT INTO [users] ([name]) VALUES ($1)'', [VString ''x''])])
   \<and> mockBag
        [(''DELETE FROM [posts]'', []),
         (''INSERT INTO [posts] ([id], [title]) VALUES ($1, $2)'', [VInt 1, VString ''a'']),
         (''DELETE FROM [users]'', []),
         (''INSERT INTO [users] ([name]) VALUES ($1)'', [VString ''x'']),
         (''INSERT INTO [users] ([name]) VALUES ($1)'', [VString ''z'']),
         (''DELETE FROM [posts]'', []),
         (''INSERT INTO [posts] ([title], [id]) VALUES ($1, $2)'', [VString ''a'', VInt 1]),
         (''DELETE FROM [users]'', []),
         (''INSERT INTO [users] ([name]) VALUES ($1)'', [VString ''z'']),
         (''INSERT INTO [users] ([name]) VALUES ($1)'', [VString ''x''])] ''posts''
     = mockBag
        [(''DELETE FROM [posts]'', []),
         (''INSERT INTO [posts] ([id], [title]) VALUES ($1, $2)'', [VInt 1, VString ''a'']),
         (''DELETE FROM [users]'', []),
         (''INSERT INTO [users] ([name]) VALUES ($1)'', [VString ''x'']),
         (''INSERT INTO [users] ([name]) VALUES ($1)'', [VString ''z''])] ''posts''
   \<and> mockBag
        [(''DELETE FROM [posts]'', []),
         (''INSERT INTO [posts] ([id], [title]) VALUES ($1, $2)'', [VInt 1, VString ''a'']),
         (''DELETE FROM [users]'', []),
         (''INSERT INTO [users] ([name]) VALUES ($1)'', [VString ''x'']),
         (''INSERT INTO [users] ([name]) VALUES ($1)'', [VString ''z'']),
         (''DELETE FROM [posts]'', []),
         (''INSERT INTO [posts] ([title], [id]) VALUES ($1, $2)'', [VString ''a'', VInt 1]),
         (''DELETE FROM [users]'', []),
         (''INSERT INTO [users] ([name]) VALUES ($1)'', [VString ''z'']),
         (''INSERT INTO [users] ([name]) VALUES ($1)'', [VString ''x''])] ''users''
     = mockBag
        [(''DELETE FROM [posts]'', []),
         (''INSERT INTO [posts] ([id], [title]) VALUES ($1, $2)'', [VInt 1, VString ''a'']),
         (''DELETE FROM [users]'', []),
         (''INSERT INTO [users] ([name]) VALUES ($1)'', [VString ''x'']),
         (''INSERT INTO [users] ([name]) VALUES ($1)'', [VString ''z''])] ''users''"
proof -
  let ?env = "redrawEnv"
  let ?h = "mockHelper ''db_test'' paramTypeDollar"
  let ?posts = "mockFile ''posts.yml'' ''- {id: 1, title: a}''"
  let ?users = "mockFile ''users.yml'' ''first: {name: x}\<newline>second: {name: z}''"
  let ?batch1 = "[(''DELETE FROM [posts]'', []),
         (''INSERT INTO [posts] ([id], [title]) VALUES ($1, $2)'', [VInt 1, VString ''a'']),
         (''DELETE FROM [users]'', []),
         (''INSERT INTO [users] ([name]) VALUES ($1)'', [VString ''x'']),
         (''INSERT INTO [users] ([name]) VALUES ($1)'', [VString ''z''])]"
  let ?batch2 = "[(''DELETE FROM [posts]'', []),
         (''INSERT INTO [posts] ([title], [id]) VALUES ($1, $2)'', [VString ''a'', VInt 1]),
         (''DELETE FROM [users]'', []),
         (''INSERT INTO [users] ([name]) VALUES ($1)'', [VString ''z'']),
         (''INSERT INTO [users] ([name]) VALUES ($1)'', [VString ''x''])]"
  let ?c = "\<lparr>db = [], helper = ?h, fixturesFiles = [?posts, ?users]\<rparr>"
  let ?withRow = "\<lambda>entries rows. add_mset ((\<lambda>(key, v). (columnOf ?h key, v)) ` entries) rows"
  have posts: "fileNameWithoutExtension ?posts = ''posts''" by code_simp
  have users: "fileNameWithoutExtension ?users = ''users''" by code_simp
  have first: "Load ?env ?c = (None, ?batch1)"
    by code_simp
  have second: "Load ?env (?c\<lparr>db := ?batch1\<rparr>) = (None, ?batch1 @ ?batch2)"
    by code_simp
  have recs_posts: "rs = [VMap [(VString ''id'', VInt 1), (VString ''title'', VString ''a'')]]
      \<or> rs = [VMap [(VString ''title'', VString ''a''), (VString ''id'', VInt 1)]]"
    if "fixtureRecords ?env s ?posts = Some rs" for s rs
    using that
    by (auto simp: fixtureRecords_def redrawEnv_def mockRedraw_def mockUnmarshal_def
        mockUnmarshalReversed_def mockFile_def split: if_splits)
  have recs_users: "rs = [VMap [(VString ''name'', VString ''x'')], VMap [(VString ''name'', VString ''z'')]]
      \<or> rs = [VMap [(VString ''name'', VString ''z'')], VMap [(VString ''name'', VString ''x'')]]"
    if "fixtureRecords ?env s ?users = Some rs" for s rs
    using that
    by (auto simp: fixtureRecords_def redrawEnv_def mockRedraw_def mockUnmarshal_def
        mockUnmarshalReversed_def mockFile_def split: if_splits)
  have same: "mset (map entrySet rs) = mset (map entrySet rs')"
    if "f \<in> set (fixturesFiles ?c)" "fixtureRecords ?env s f = Some rs"
      "fixtureRecords ?env s' f = Some rs'" for f s s' rs rs'
  proof -
    from that(1) consider "f = ?posts" | "f = ?users" by auto
    then show ?thesis
    proof cases
      case 1
      with that recs_posts [of s rs] recs_posts [of s' rs'] show ?thesis
        by (auto simp: insert_commute)
    next
      case 2
      with that recs_users [of s rs] recs_users [of s' rs'] show ?thesis
        by auto
    qed
  qed
  have bracket: "\<exists>tx tx'. loadFn tx = (None, tx')
           \<and> (\<forall>g \<in> set (fixturesFiles ?c).
                 mockBag d' (fileNameWithoutExtension g) = mockBag tx' (fileNameWithoutExtension g))"
    if "disableReferentialIntegrity (helper ?c) d loadFn = (None, d')" for d loadFn d'
  proof -
    from that have "loadFn d = (None, d')"
      by (auto simp: mockHelper_def split: prod.splits option.splits)
    then show ?thesis by blast
  qed
  have around: "\<exists>a b. fn a = (None, b)
           \<and> (\<forall>g \<in> set (fixturesFiles ?c).
                 mockBag a (fileNameWithoutExtension g) = mockBag tx (fileNameWithoutExtension g)
                 \<and> mockBag tx' (fileNameWithoutExtension g) = mockBag b (fileNameWithoutExtension g))"
    if "whileInsertOnTable (helper ?c) tx tableName fn = (None, tx')" for tx tableName fn tx'
  proof -
    from that have "fn tx = (None, tx')"
      by (simp add: mockHelper_def)
    then show ?thesis by blast
  qed
  have del: "\<forall>g \<in> set (fixturesFiles ?c). mockBag tx' (fileNameWithoutExtension g) =
          (if fileNameWithoutExtension g = fileNameWithoutExtension f then {#}
           else mockBag tx (fileNameWithoutExtension g))"
    if "f \<in> set (fixturesFiles ?c)" "delete ?env (helper ?c) f tx = (None, tx')" for f tx tx'
  proof -
    from that(2) have "tx' = tx @ [(''DELETE FROM ['' @ fileNameWithoutExtension f @ '']'', [])]"
      by (simp add: delete_def redrawEnv_def mockExec_def mockHelper_def)
    with that(1) show ?thesis
      by (auto simp: mockBag_snoc posts users)
  qed
  have ins: "\<forall>g \<in> set (fixturesFiles ?c). mockBag tx' (fileNameWithoutExtension g) =
          (if fileNameWithoutExtension g = fileNameWithoutExtension f
           then ?withRow (set entries) (mockBag tx (fileNameWithoutExtension g))
           else mockBag tx (fileNameWithoutExtension g))"
    if f: "f \<in> set (fixturesFiles ?c)" and rs: "fixtureRecords ?env s f = Some rs"
      and entries: "VMap entries \<in> set rs"
      and build: "buildInsertSQL ?env (helper ?c) f entries = (sqlStr, vs, None)"
      and exec: "Exec ?env tx sqlStr vs = (None, tx')" for f s rs entries sqlStr vs tx tx'
  proof -
    from exec have tx': "tx' = tx @ [(sqlStr, vs)]"
      by (simp add: redrawEnv_def mockExec_def)
    have b1: "buildInsertSQL ?env ?h ?posts [(VString ''id'', VInt 1), (VString ''title'', VString ''a'')]
        = (''INSERT INTO [posts] ([id], [title]) VALUES ($1, $2)'', [VInt 1, VString ''a''], None)"
      by code_simp
    have b2: "buildInsertSQL ?env ?h ?posts [(VString ''title'', VString ''a''), (VString ''id'', VInt 1)]
        = (''INSERT INTO [posts] ([title], [id]) VALUES ($1, $2)'', [VString ''a'', VInt 1], None)"
      by code_simp
    have b3: "buildInsertSQL ?env ?h ?users [(VString ''name'', v)]
        = (''INSERT INTO [users] ([name]) VALUES ($1)'', [v], None)" for v
      by (simp add: buildInsertSQL_def users mockHelper_def) code_simp
    have c1: "mockColumns ''INSERT INTO [posts] ([id], [title]) VALUES ($1, $2)'' = [''[id]'', ''[title]'']"
      by code_simp
    have c2: "mockColumns ''INSERT INTO [posts] ([title], [id]) VALUES ($1, $2)'' = [''[title]'', ''[id]'']"
      by code_simp
    have c3: "mockColumns ''INSERT INTO [users] ([name]) VALUES ($1)'' = [''[name]'']"
      by code_simp
    from f consider "f = ?posts" | "f = ?users" by auto
    then show ?thesis
    proof cases
      case 1
      from recs_posts [of s rs] rs entries 1
      consider "entries = [(VString ''id'', VInt 1), (VString ''title'', VString ''a'')]"
        | "entries = [(VString ''title'', VString ''a''), (VString ''id'', VInt 1)]"
        by auto
      then show ?thesis
      proof cases
        case 1
        with build \<open>f = ?posts\<close> b1 have "sqlStr = ''INSERT INTO [posts] ([id], [title]) VALUES ($1, $2)''"
          and "vs = [VInt 1, VString ''a'']" by simp_all
        then show ?thesis
          unfolding tx' \<open>f = ?posts\<close> 1
          by (simp add: mockBag_snoc posts users c1 mockHelper_def insert_commute)
      next
        case 2
        with build \<open>f = ?posts\<close> b2 have "sqlStr = ''INSERT INTO [posts] ([title], [id]) VALUES ($1, $2)''"
          and "vs = [VString ''a'', VInt 1]" by simp_all
        then show ?thesis
          unfolding tx' \<open>f = ?posts\<close> 2
          by (simp add: mockBag_snoc posts users c2 mockHelper_def insert_commute)
      qed
    next
      case 2
      from recs_users [of s rs] rs entries 2
      obtain v where e: "entries = [(VString ''name'', v)]"
        by auto
      with build 2 b3 [of v] have "sqlStr = ''INSERT INTO [users] ([name]) VALUES ($1)''"
        and "vs = [v]" by simp_all
      then show ?thesis
        unfolding tx' 2 e
        by (simp add: mockBag_snoc posts users c3 mockHelper_def)
    qed
  qed
  have comm: "?withRow x (?withRow y r) = ?withRow y (?withRow x r)" for x y r
    by (simp add: add_mset_commute)
  from Load_twice_same_rows [where rows = mockBag and dbRows = mockBag and noRows = "{#}"
      and withRow = ?withRow, OF first second same bracket around del ins comm]
  have "mockBag (?batch1 @ ?batch2) ''posts'' = mockBag ?batch1 ''posts''"
    and "mockBag (?batch1 @ ?batch2) ''users'' = mockBag ?batch1 ''users''"
    by (simp_all add: posts users)
  with first second show ?thesis by simp
qed

end
